theory Spec2Isabelle
  imports Complex_Main
begin

section \<open>Python values shared by the modules\<close>

text \<open>
  Python numbers are modelled as \<^typ>\<open>real\<close> where the source computes with floats (or with
  ints and floats mixed) and as \<^typ>\<open>int\<close> where it needs an int (a pixel index, a
  \<open>range\<close> bound, a \<open>%X\<close> argument). Exceptions are values of the type \<open>error\<close>;
  a function that can raise returns \<open>error + 'a\<close>.
\<close>

datatype error = AttributeError | IndexError | ValueError | ZeroDivisionError | TypeError | KeyError

text \<open>\<open>int(x)\<close> on a number: truncation towards zero.\<close>

definition py_int :: "real \<Rightarrow> int" where
  "py_int x = (if 0 \<le> x then \<lfloor>x\<rfloor> else \<lceil>x\<rceil>)"

text \<open>\<open>round(x)\<close> with one argument: the nearest int, ties to the even one.\<close>

definition py_round :: "real \<Rightarrow> int" where
  "py_round x = (let f = \<lfloor>x\<rfloor>; d = x - of_int f in
     if d < 1 / 2 then f else if 1 / 2 < d then f + 1 else if even f then f else f + 1)"

text \<open>A \<open>for\<close> loop without \<open>break\<close> whose body may raise.\<close>

fun for_each :: "('a \<Rightarrow> 's \<Rightarrow> error + 's) \<Rightarrow> 'a list \<Rightarrow> 's \<Rightarrow> error + 's" where
  "for_each body [] s = Inr s"
| "for_each body (x # xs) s =
     (case body x s of Inl e \<Rightarrow> Inl e | Inr s' \<Rightarrow> for_each body xs s')"

section \<open>utils.py: Color\<close>

subsection \<open>The builtins \<open>int(s, 16)\<close> and \<open>"%02X" % n\<close>\<close>

definition hex_digit_value :: "char \<Rightarrow> int option" where
  "hex_digit_value c = map_of
     [(CHR ''0'', 0), (CHR ''1'', 1), (CHR ''2'', 2), (CHR ''3'', 3), (CHR ''4'', 4),
      (CHR ''5'', 5), (CHR ''6'', 6), (CHR ''7'', 7), (CHR ''8'', 8), (CHR ''9'', 9),
      (CHR ''a'', 10), (CHR ''b'', 11), (CHR ''c'', 12), (CHR ''d'', 13), (CHR ''e'', 14),
      (CHR ''f'', 15),
      (CHR ''A'', 10), (CHR ''B'', 11), (CHR ''C'', 12), (CHR ''D'', 13), (CHR ''E'', 14),
      (CHR ''F'', 15)] c"

text \<open>
  The digits of \<open>int(s, 16)\<close> after sign and prefix: hex digits, where a single underscore
  may stand between two digits. \<open>None\<close> is the ValueError.
\<close>

fun parse_digits :: "string \<Rightarrow> int \<Rightarrow> int option" where
  "parse_digits [] acc = Some acc"
| "parse_digits (c # cs) acc =
     (if c = CHR ''_'' then
        (case cs of
           [] \<Rightarrow> None
         | d # ds \<Rightarrow>
             (case hex_digit_value d of
                None \<Rightarrow> None
              | Some v \<Rightarrow> parse_digits ds (16 * acc + v)))
      else
        (case hex_digit_value c of
           None \<Rightarrow> None
         | Some v \<Rightarrow> parse_digits cs (16 * acc + v)))"

definition is_space :: "char \<Rightarrow> bool" where
  "is_space c = (c \<in> set [CHR '' '', CHR 0x09, CHR 0x0A, CHR 0x0B, CHR 0x0C, CHR 0x0D])"

definition strip :: "string \<Rightarrow> string" where
  "strip s = rev (dropWhile is_space (rev (dropWhile is_space s)))"

text \<open>
  \<open>int(s, 16)\<close> on an ASCII string: surrounding whitespace is dropped, then an optional
  sign, an optional \<open>0x\<close>/\<open>0X\<close> prefix (after which one underscore is allowed), then at
  least one digit; the digits may not start with an underscore.
\<close>

definition int_base16 :: "string \<Rightarrow> error + int" where
  "int_base16 s =
     (let s1 = strip s;
          neg = (case s1 of c # _ \<Rightarrow> c = CHR ''-'' | [] \<Rightarrow> False);
          s2 = (case s1 of c # cs \<Rightarrow> if c = CHR ''-'' \<or> c = CHR ''+'' then cs else s1
                         | [] \<Rightarrow> s1);
          s3 = (case s2 of
                  c # d # cs \<Rightarrow>
                    if c = CHR ''0'' \<and> (d = CHR ''x'' \<or> d = CHR ''X'')
                    then (case cs of e # es \<Rightarrow> if e = CHR ''_'' then es else cs | [] \<Rightarrow> cs)
                    else s2
                | _ \<Rightarrow> s2)
      in case s3 of
           [] \<Rightarrow> Inl ValueError
         | c # _ \<Rightarrow>
             if c = CHR ''_'' then Inl ValueError
             else (case parse_digits s3 0 of
                     None \<Rightarrow> Inl ValueError
                   | Some v \<Rightarrow> Inr (if neg then - v else v)))"

definition hex_char :: "nat \<Rightarrow> char" where
  "hex_char d = ''0123456789ABCDEF'' ! d"

fun hex_digits :: "nat \<Rightarrow> string \<Rightarrow> string" where
  "hex_digits n acc =
     (if n < 16 then hex_char n # acc else hex_digits (n div 16) (hex_char (n mod 16) # acc))"

declare hex_digits.simps [simp del]

text \<open>
  \<open>"%02X" % n\<close> for an int: upper-case hex digits, a minus sign for a negative number,
  padded with zeros after the sign to a width of two characters.
\<close>

definition format_02X :: "int \<Rightarrow> string" where
  "format_02X n =
     (let ds = hex_digits (nat \<bar>n\<bar>) [];
          sign = (if n < 0 then ''-'' else [])
      in sign @ replicate (2 - length sign - length ds) CHR ''0'' @ ds)"

subsection \<open>class Color\<close>

record color =
  name :: "string option"
  red :: real
  green :: real
  blue :: real
  alpha :: real

text \<open>The first argument of \<open>Color(...)\<close>: a string, a list or tuple, or a number.\<close>

datatype color_arg = Str string | Seq "real list" | Num real

definition hex_to_rgba :: "string \<Rightarrow> error + (int \<times> int \<times> int \<times> int)" where
  "hex_to_rgba hex_string =
     (let r_hex = take 2 (drop 1 hex_string);
          g_hex = take 2 (drop 3 hex_string);
          b_hex = take 2 (drop 5 hex_string);
          a_hex = (if length hex_string > 7 then take 2 (drop 7 hex_string) else ''FF'')
      in case int_base16 r_hex of Inl e \<Rightarrow> Inl e | Inr r \<Rightarrow>
         (case int_base16 g_hex of Inl e \<Rightarrow> Inl e | Inr g \<Rightarrow>
         (case int_base16 b_hex of Inl e \<Rightarrow> Inl e | Inr b \<Rightarrow>
         (case int_base16 a_hex of Inl e \<Rightarrow> Inl e | Inr a \<Rightarrow> Inr (r, g, b, a)))))"

text \<open>
  The tail of \<open>__init__\<close>, common to all branches: the channels are set from the four
  values, a missing green or blue is the red value and a missing alpha is 255.
\<close>

definition set_channels ::
  "string option \<Rightarrow> real \<Rightarrow> real option \<Rightarrow> real option \<Rightarrow> real option \<Rightarrow> color" where
  "set_channels nm r g b a =
     \<lparr>name = nm, red = r,
      green = (case g of Some v \<Rightarrow> v | None \<Rightarrow> r),
      blue = (case b of Some v \<Rightarrow> v | None \<Rightarrow> r),
      alpha = (case a of Some v \<Rightarrow> v | None \<Rightarrow> 255)\<rparr>"

text \<open>
  \<open>Color.__init__(red, green=None, blue=None, alpha=None)\<close>. The table \<open>COLORS\<close> of
  \<open>color_data\<close> is a parameter.
\<close>

definition Color ::
  "(string \<rightharpoonup> string) \<Rightarrow> color_arg \<Rightarrow> real option \<Rightarrow> real option \<Rightarrow> real option
     \<Rightarrow> error + color" where
  "Color COLORS red0 green0 blue0 alpha0 =
     (case red0 of
        Str s \<Rightarrow>
          (if take 1 s = ''#'' then
             (case hex_to_rgba s of
                Inl e \<Rightarrow> Inl e
              | Inr (r, g, b, a) \<Rightarrow>
                  Inr (set_channels None (of_int r) (Some (of_int g)) (Some (of_int b))
                         (Some (of_int a))))
           else
             (let hex_string = (case COLORS s of Some h \<Rightarrow> h | None \<Rightarrow> ''#00000000'')
              in case hex_to_rgba hex_string of
                   Inl e \<Rightarrow> Inl e
                 | Inr (r, g, b, a) \<Rightarrow>
                     Inr (set_channels (Some s) (of_int r) (Some (of_int g)) (Some (of_int b))
                            (Some (of_int a)))))
      | Seq xs \<Rightarrow>
          (if length xs = 3 then
             Inr (set_channels None (xs ! 0) (Some (xs ! 1)) (Some (xs ! 2)) (Some 255))
           else if length xs = 4 then
             Inr (set_channels None (xs ! 0) (Some (xs ! 1)) (Some (xs ! 2)) (Some (xs ! 3)))
           else Inl ValueError)
      | Num r \<Rightarrow> Inr (set_channels None r green0 blue0 alpha0))"

definition to_tuple :: "color \<Rightarrow> int \<times> int \<times> int \<times> int" where
  "to_tuple c = (py_int (red c), py_int (green c), py_int (blue c), py_int (alpha c))"

definition to_hexcode :: "color \<Rightarrow> string" where
  "to_hexcode c =
     (case to_tuple c of (r, g, b, a) \<Rightarrow>
        ''#'' @ format_02X r @ format_02X g @ format_02X b @ format_02X a)"

section \<open>world.py: walls, robots and the world\<close>

text \<open>
  Objects that are shared and mutated (robots, worlds) live in a store and are named by
  references, so that \<open>robot not in self._robots\<close> is a test on identity. The class
  \<open>Robot\<close> of the module \<open>robot\<close> is not modelled: a robot object carries the attributes
  that \<open>world.py\<close> and \<open>cameras.py\<close> read and write, and its methods are parameters of
  the functions that call them.
\<close>

type_synonym robot_ref = nat
type_synonym world_ref = nat
type_synonym watcher = nat
type_synonym widget = nat

record point =
  px :: real
  py :: real

record line =
  p1 :: point
  p2 :: point

record wall =
  wall_color :: color
  wall_robot :: "robot_ref option"
  wall_lines :: "line list"

record robot =
  robot_name :: string
  robot_x :: real
  robot_y :: real
  direction :: real
  robot_color :: color
  bounding_lines :: "line list"
  has_image :: bool
  world :: "world_ref option"

text \<open>
  The world as \<open>world.py\<close> and the camera see it. \<open>ground_image\<close> stands for the pair
  \<open>ground_image\<close>/\<open>ground_image_pixels\<close>: \<open>None\<close> when there is no image, else its
  pixel table.
\<close>

record world_obj =
  world_width :: real
  world_height :: real
  world_scale :: real
  world_time :: real
  ground_color :: color
  ground_image :: "((int \<times> int) \<rightharpoonup> real list) option"
  robots :: "robot_ref list"
  walls :: "wall list"
  watchers :: "watcher list"

record state =
  robot_of :: "robot_ref \<Rightarrow> robot"
  world_of :: "world_ref \<Rightarrow> world_obj"
  stdout :: "string list"
  drawn :: nat

definition print :: "string \<Rightarrow> state \<Rightarrow> state" where
  "print msg st = st\<lparr>stdout := stdout st @ [msg]\<rparr>"

text \<open>
  \<open>World.update\<close>: every robot of the world is updated, then the world is drawn. The
  robots' \<open>update\<close> and the drawing on the canvas are parameters.
\<close>

definition World_update ::
  "(robot_ref \<Rightarrow> state \<Rightarrow> state) \<Rightarrow> (world_ref \<Rightarrow> state \<Rightarrow> state) \<Rightarrow> world_ref \<Rightarrow> state \<Rightarrow> state" where
  "World_update update_robot draw self st = draw self (fold update_robot (robots (world_of st self)) st)"

text \<open>
  \<open>World.add_robot\<close>. \<open>random k\<close> is the \<open>k\<close>-th value that \<open>random.random()\<close> returns;
  \<open>drawn\<close> counts the values taken so far.
\<close>

definition add_robot ::
  "(nat \<Rightarrow> real) \<Rightarrow> (robot_ref \<Rightarrow> state \<Rightarrow> state) \<Rightarrow> (world_ref \<Rightarrow> state \<Rightarrow> state)
     \<Rightarrow> world_ref \<Rightarrow> robot_ref \<Rightarrow> state \<Rightarrow> state" where
  "add_robot random update_robot draw self r st =
     (if r \<notin> set (robots (world_of st self)) then
        (let w = world_of st self;
             st1 = (if robot_x (robot_of st r) = 0
                    then st\<lparr>robot_of := (robot_of st)
                              (r := (robot_of st r)
                                 \<lparr>robot_x := of_int (py_round (random (drawn st) * (world_width w - 10)))\<rparr>),
                            drawn := drawn st + 1\<rparr>
                    else st);
             st2 = (if robot_y (robot_of st1 r) = 0
                    then st1\<lparr>robot_of := (robot_of st1)
                               (r := (robot_of st1 r)
                                  \<lparr>robot_y := of_int (py_round (random (drawn st1) * (world_height w - 10)))\<rparr>),
                             drawn := drawn st1 + 1\<rparr>
                    else st1);
             st3 = st2\<lparr>world_of := (world_of st2)
                         (self := (world_of st2 self)\<lparr>robots := robots (world_of st2 self) @ [r]\<rparr>)\<rparr>;
             st4 = st3\<lparr>robot_of := (robot_of st3) (r := (robot_of st3 r)\<lparr>world := Some self\<rparr>)\<rparr>;
             wall = \<lparr>wall_color = robot_color (robot_of st4 r), wall_robot = Some r,
                     wall_lines = bounding_lines (robot_of st4 r)\<rparr>;
             st5 = st4\<lparr>world_of := (world_of st4)
                         (self := (world_of st4 self)\<lparr>walls := walls (world_of st4 self) @ [wall]\<rparr>)\<rparr>
         in World_update update_robot draw self st5)
      else print ''Can't add the same robot to a world more than once.'' st)"

section \<open>devices/cameras.py: Camera\<close>

text \<open>
  A ray hit, as \<open>Robot.cast_ray\<close> returns it: the robot that was hit (\<open>None\<close> for a
  wall), the relative height, the distance and the colour.
\<close>

record hit =
  hit_robot :: "robot_ref option"
  height :: real
  distance :: real
  hit_color :: color

record obstacle =
  ob_robot :: robot_ref
  max_x :: int
  max_y :: int
  min_x :: int
  min_y :: int

record camera =
  robot :: "robot_ref option"
  time :: real
  cameraShape :: "int \<times> int"
  max_range :: int
  colorsFadeWithDistance :: real
  sizeFadeWithDistance :: real
  reflectGround :: bool
  reflectSky :: bool
  angle :: real
  hits :: "hit list list"
  obstacles :: "(string \<times> obstacle) list"

text \<open>The configuration dictionary: a key that is absent is \<open>None\<close>.\<close>

record config =
  cfg_class :: "string option"
  cfg_width :: "int option"
  cfg_height :: "int option"
  cfg_angle :: "real option"
  cfg_colorsFadeWithDistance :: "real option"
  cfg_sizeFadeWithDistance :: "real option"
  cfg_reflectGround :: "bool option"
  cfg_reflectSky :: "bool option"
  cfg_max_range :: "int option"

definition reset :: "camera \<Rightarrow> camera" where
  "reset cam = cam\<lparr>hits := replicate (nat (fst (cameraShape cam))) []\<rparr>"

definition set_fov :: "real \<Rightarrow> camera \<Rightarrow> camera" where
  "set_fov a cam = reset (cam\<lparr>angle := a * pi / 180\<rparr>)"

definition set_size :: "int \<Rightarrow> int \<Rightarrow> camera \<Rightarrow> camera" where
  "set_size w h cam = reset (cam\<lparr>cameraShape := (w, h)\<rparr>)"

definition initialize :: "camera \<Rightarrow> camera" where
  "initialize cam =
     reset (set_fov 60
       (cam\<lparr>time := 0, cameraShape := (256, 128), max_range := 1000,
            colorsFadeWithDistance := 1 / 2, sizeFadeWithDistance := 1,
            reflectGround := True, reflectSky := False\<rparr>))"

definition from_json :: "config \<Rightarrow> camera \<Rightarrow> camera" where
  "from_json cfg cam =
     (let c1 = (case cfg_width cfg of Some w \<Rightarrow> cam\<lparr>cameraShape := (w, snd (cameraShape cam))\<rparr>
                | None \<Rightarrow> cam);
          c2 = (case cfg_height cfg of Some h \<Rightarrow> c1\<lparr>cameraShape := (fst (cameraShape c1), h)\<rparr>
                | None \<Rightarrow> c1);
          c3 = (case cfg_colorsFadeWithDistance cfg of
                  Some v \<Rightarrow> c2\<lparr>colorsFadeWithDistance := v\<rparr> | None \<Rightarrow> c2);
          c4 = (case cfg_sizeFadeWithDistance cfg of
                  Some v \<Rightarrow> c3\<lparr>sizeFadeWithDistance := v\<rparr> | None \<Rightarrow> c3);
          c5 = (case cfg_reflectGround cfg of Some v \<Rightarrow> c4\<lparr>reflectGround := v\<rparr> | None \<Rightarrow> c4);
          c6 = (case cfg_reflectSky cfg of Some v \<Rightarrow> c5\<lparr>reflectSky := v\<rparr> | None \<Rightarrow> c5);
          c7 = (case cfg_angle cfg of Some a \<Rightarrow> set_fov a c6 | None \<Rightarrow> c6)
      in case cfg_max_range cfg of Some m \<Rightarrow> c7\<lparr>max_range := m\<rparr> | None \<Rightarrow> c7)"


text \<open>
  \<open>Camera.__init__\<close>: every key of the configuration but \<open>class\<close> is present. The attributes that
  \<open>initialize\<close> and \<open>from_json\<close> set start from placeholders, which they overwrite.
\<close>

definition Camera ::
  "int \<Rightarrow> int \<Rightarrow> real \<Rightarrow> real \<Rightarrow> real \<Rightarrow> bool \<Rightarrow> bool \<Rightarrow> int \<Rightarrow> camera" where
  "Camera w h a cf sf rg rs mr =
     from_json
       \<lparr>cfg_class = None, cfg_width = Some w, cfg_height = Some h, cfg_angle = Some a,
        cfg_colorsFadeWithDistance = Some cf, cfg_sizeFadeWithDistance = Some sf,
        cfg_reflectGround = Some rg, cfg_reflectSky = Some rs, cfg_max_range = Some mr\<rparr>
       (initialize
          \<lparr>robot = None, time = 0, cameraShape = (0, 0), max_range = 0,
           colorsFadeWithDistance = 0, sizeFadeWithDistance = 0, reflectGround = False,
           reflectSky = False, angle = 0, hits = [], obstacles = []\<rparr>)"

text \<open>
  \<open>Camera.watch\<close>. The watcher that \<open>CameraWatcher(self)\<close> creates and its widget are
  parameters. The result is the returned value (\<open>None\<close> or the widget) and the state.
\<close>

definition watch :: "(camera \<Rightarrow> watcher) \<Rightarrow> (watcher \<Rightarrow> widget) \<Rightarrow> camera \<Rightarrow> state
     \<Rightarrow> widget option \<times> state" where
  "watch CameraWatcher widget_of cam st =
     (if robot cam = None \<or> world (robot_of st (the (robot cam))) = None then
        (None, print ''ERROR: can't watch until added to robot, and robot is in world'' st)
      else
        (let w = the (world (robot_of st (the (robot cam))));
             watcher = CameraWatcher cam
         in (Some (widget_of watcher),
             st\<lparr>world_of := (world_of st)
                  (w := (world_of st w)\<lparr>watchers := watchers (world_of st w) @ [watcher]\<rparr>)\<rparr>)))"

text \<open>
  \<open>self.robot\<close> and \<open>self.robot.world\<close>, as the attribute accesses of the methods below
  read them: \<open>None\<close> has no attributes.
\<close>

definition the_robot :: "camera \<Rightarrow> error + robot_ref" where
  "the_robot cam = (case robot cam of None \<Rightarrow> Inl AttributeError | Some r \<Rightarrow> Inr r)"

definition the_world :: "state \<Rightarrow> camera \<Rightarrow> error + (robot_ref \<times> world_ref)" where
  "the_world st cam =
     (case the_robot cam of
        Inl e \<Rightarrow> Inl e
      | Inr r \<Rightarrow> (case world (robot_of st r) of None \<Rightarrow> Inl AttributeError | Some w \<Rightarrow> Inr (r, w)))"

text \<open>
  \<open>Camera._update\<close>, here \<open>lazy_update\<close>. \<open>cast_ray st r x y a maxRange\<close> is the method \<open>cast_ray\<close> of robot
  \<open>r\<close>; \<open>column_ray\<close> is the call that the loop makes for column \<open>i\<close>. Storing into
  \<open>self.hits[i]\<close> raises IndexError when the buffer is shorter.
\<close>

definition column_ray ::
  "(state \<Rightarrow> robot_ref \<Rightarrow> real \<Rightarrow> real \<Rightarrow> real \<Rightarrow> real \<Rightarrow> hit list) \<Rightarrow> state \<Rightarrow> robot_ref
     \<Rightarrow> camera \<Rightarrow> nat \<Rightarrow> hit list" where
  "column_ray cast_ray st r cam i =
     (let a = real i / real_of_int (fst (cameraShape cam)) * angle cam - angle cam / 2
      in cast_ray st r (robot_x (robot_of st r)) (robot_y (robot_of st r))
           (pi / 2 - direction (robot_of st r) - a) 1000)"

definition update_column ::
  "(state \<Rightarrow> robot_ref \<Rightarrow> real \<Rightarrow> real \<Rightarrow> real \<Rightarrow> real \<Rightarrow> hit list) \<Rightarrow> state \<Rightarrow> robot_ref
     \<Rightarrow> nat \<Rightarrow> camera \<Rightarrow> error + camera" where
  "update_column cast_ray st r i cam =
     (let hs = column_ray cast_ray st r cam i
      in if i < length (hits cam) then Inr (cam\<lparr>hits := (hits cam)[i := hs]\<rparr>)
         else Inl IndexError)"

definition lazy_update ::
  "(state \<Rightarrow> robot_ref \<Rightarrow> real \<Rightarrow> real \<Rightarrow> real \<Rightarrow> real \<Rightarrow> hit list) \<Rightarrow> state \<Rightarrow> camera
     \<Rightarrow> error + camera" where
  "lazy_update cast_ray st cam =
     (case the_world st cam of
        Inl e \<Rightarrow> Inl e
      | Inr (r, w) \<Rightarrow>
          for_each (update_column cast_ray st r) [0..<nat (fst (cameraShape cam))]
            (cam\<lparr>time := world_time (world_of st w)\<rparr>))"

text \<open>
  \<open>Camera.find_closest_wall\<close>: the loop over \<open>reversed(hits)\<close>; the result \<open>None\<close> is
  \<open>float("inf")\<close>.
\<close>

fun first_wall :: "hit list \<Rightarrow> real option" where
  "first_wall [] = None"
| "first_wall (h # hs) = (if height h < 1 then first_wall hs else Some (distance h))"

definition find_closest_wall :: "hit list \<Rightarrow> real option" where
  "find_closest_wall hs = first_wall (rev hs)"

text \<open>\<open>d > closest_wall_dist\<close>, where nothing is greater than infinity.\<close>

definition behind :: "real \<Rightarrow> real option \<Rightarrow> bool" where
  "behind d closest_wall_dist = (case closest_wall_dist of None \<Rightarrow> False | Some w \<Rightarrow> w < d)"

subsection \<open>Pictures\<close>

text \<open>
  A PIL image of mode RGBA and its pixel access: \<open>Image.new\<close> gives an image whose pixels
  are all \<open>(0, 0, 0, 0)\<close>; a pixel is written at \<open>[i, j]\<close>, where a negative index counts
  from the far edge and an index out of range raises IndexError.
\<close>

type_synonym rgba = "int \<times> int \<times> int \<times> int"

record picture =
  pic_size :: "int \<times> int"
  pixels :: "int \<times> int \<Rightarrow> rgba"

definition Image_new :: "int \<times> int \<Rightarrow> error + picture" where
  "Image_new sz =
     (if fst sz < 0 \<or> snd sz < 0 then Inl ValueError
      else Inr \<lparr>pic_size = sz, pixels = (\<lambda>_. (0, 0, 0, 0))\<rparr>)"

definition putpixel :: "int \<times> int \<Rightarrow> rgba \<Rightarrow> picture \<Rightarrow> error + picture" where
  "putpixel ij v pic =
     (let i = (if fst ij < 0 then fst (pic_size pic) + fst ij else fst ij);
          j = (if snd ij < 0 then snd (pic_size pic) + snd ij else snd ij)
      in if 0 \<le> i \<and> i < fst (pic_size pic) \<and> 0 \<le> j \<and> j < snd (pic_size pic)
         then Inr (pic\<lparr>pixels := (pixels pic) ((i, j) := v)\<rparr>)
         else Inl IndexError)"

subsection \<open>Fading with distance\<close>

text \<open>
  The three ratios that \<open>take_picture\<close> computes for a hit, in both of its loops:
  \<open>distance_ratio\<close>, \<open>s\<close> and \<open>sc\<close>; \<open>wsize\<close> is the local \<open>size\<close>, and dividing by
  zero raises.
\<close>

definition clamp01 :: "real \<Rightarrow> real" where
  "clamp01 v = max (min v 1) 0"

definition fade :: "real \<Rightarrow> real \<Rightarrow> real \<Rightarrow> error + real" where
  "fade d wsize f =
     (if wsize = 0 then Inl ZeroDivisionError else Inr (clamp01 (1 - d / wsize * f)))"

definition ratios :: "camera \<Rightarrow> real \<Rightarrow> hit \<Rightarrow> error + (real \<times> real \<times> real)" where
  "ratios cam wsize h =
     (if wsize = 0 then Inl ZeroDivisionError
      else case fade (distance h) wsize (sizeFadeWithDistance cam) of Inl e \<Rightarrow> Inl e | Inr s \<Rightarrow>
        (case fade (distance h) wsize (colorsFadeWithDistance cam) of Inl e \<Rightarrow> Inl e | Inr sc \<Rightarrow>
           Inr (clamp01 (1 - distance h / wsize), s, sc)))"

text \<open>\<open>Color(v)\<close> and \<open>Color(r, g, b)\<close> on numbers.\<close>

definition gray :: "real \<Rightarrow> color" where
  "gray v = set_channels None v None None None"

definition rgb :: "real \<Rightarrow> real \<Rightarrow> real \<Rightarrow> color" where
  "rgb r g b = set_channels None r (Some g) (Some b) None"

text \<open>The colour \<open>hcolor\<close> of a hit, by the type of the picture.\<close>

definition shade :: "string \<Rightarrow> hit \<Rightarrow> real \<Rightarrow> real \<Rightarrow> color" where
  "shade ptype h distance_ratio sc =
     (if ptype = ''color'' then
        rgb (red (hit_color h) * sc) (green (hit_color h) * sc) (blue (hit_color h) * sc)
      else if ptype = ''depth'' then
        rgb (255 * distance_ratio) (255 * distance_ratio) (255 * distance_ratio)
      else
        (let avg = (red (hit_color h) + green (hit_color h) + blue (hit_color h)) / 3
         in rgb (avg * sc) (avg * sc) (avg * sc)))"

subsection \<open>The ground\<close>

text \<open>\<open>xs[k]\<close> on a list.\<close>

definition py_index :: "'a list \<Rightarrow> int \<Rightarrow> error + 'a" where
  "py_index xs k =
     (let n = int (length xs); j = (if k < 0 then n + k else k)
      in if 0 \<le> j \<and> j < n then Inr (xs ! nat j) else Inl IndexError)"

text \<open>
  \<open>Camera._get_visible_area\<close>: the points along the two edges of the field of view,
  one step apart. The robot's \<open>rotate_around\<close> is a parameter.
\<close>

fun edge_points :: "nat \<Rightarrow> real \<times> real \<Rightarrow> real \<times> real \<Rightarrow> (real \<times> real) list" where
  "edge_points 0 p d = []"
| "edge_points (Suc n) p d = p # edge_points n (fst p + fst d, snd p + snd d) d"

definition get_visible_area ::
  "(robot_ref \<Rightarrow> real \<Rightarrow> real \<Rightarrow> real \<Rightarrow> real \<Rightarrow> real \<times> real) \<Rightarrow> state \<Rightarrow> camera
     \<Rightarrow> error + ((real \<times> real) \<times> (real \<times> real)) list" where
  "get_visible_area rotate_around st cam =
     (case the_robot cam of
        Inl e \<Rightarrow> Inl e
      | Inr r \<Rightarrow>
          (let rob = robot_of st r;
               edge = (\<lambda>a. edge_points (nat (max_range cam)) (robot_x rob, robot_y rob)
                              (rotate_around r 0 0 1 (direction rob + a)))
           in Inr (zip (edge (angle cam / 2)) (edge (- angle cam / 2)))))"

text \<open>\<open>Color(*v)\<close> on a pixel value of the ground image.\<close>

definition Color_of_pixel :: "real list \<Rightarrow> error + color" where
  "Color_of_pixel v =
     (case v of
        [r] \<Rightarrow> Inr (set_channels None r None None None)
      | [r, g] \<Rightarrow> Inr (set_channels None r (Some g) None None)
      | [r, g, b] \<Rightarrow> Inr (set_channels None r (Some g) (Some b) None)
      | [r, g, b, a] \<Rightarrow> Inr (set_channels None r (Some g) (Some b) (Some a))
      | _ \<Rightarrow> Inl TypeError)"

definition get_ground_color ::
  "state \<Rightarrow> camera \<Rightarrow> ((real \<times> real) \<times> (real \<times> real)) list option \<Rightarrow> nat \<Rightarrow> nat
     \<Rightarrow> error + color" where
  "get_ground_color st cam area i j =
     (case the_world st cam of
        Inl e \<Rightarrow> Inl e
      | Inr (r, w) \<Rightarrow>
          (let wld = world_of st w; W = fst (cameraShape cam); H = snd (cameraShape cam)
           in case (ground_image wld, area) of
                (Some image_pixels, Some ar) \<Rightarrow>
                  (if H = 0 then Inl ZeroDivisionError
                   else
                     (let dist = py_round (((of_int H - real j) / of_int H / 2) * real (length ar))
                      in case py_index ar dist of
                           Inl e \<Rightarrow> Inl e
                         | Inr (q1, q2) \<Rightarrow>
                             (if W = 0 then Inl ZeroDivisionError
                              else
                                (let minx = min (fst q1) (fst q2); maxx = max (fst q1) (fst q2);
                                     miny = min (snd q1) (snd q2); maxy = max (snd q1) (snd q2);
                                     xi = py_round (((maxx - minx) * real i / of_int W + minx)
                                                      * world_scale wld);
                                     yi = py_round (((maxy - miny) * real i / of_int W + miny)
                                                      * world_scale wld)
                                 in if 0 \<le> xi \<and> of_int xi < (world_width wld - 1) * world_scale wld
                                        \<and> 0 \<le> yi
                                        \<and> of_int yi < (world_height wld - 1) * world_scale wld
                                    then (case image_pixels (xi, yi) of
                                            None \<Rightarrow> Inl IndexError
                                          | Some v \<Rightarrow> Color_of_pixel v)
                                    else Inr (ground_color wld)))))
              | _ \<Rightarrow> Inr (ground_color wld)))"

subsection \<open>\<open>take_picture\<close>: walls, sky and ground\<close>

type_synonym area = "((real \<times> real) \<times> (real \<times> real)) list"

text \<open>The colour of a sky pixel and of a ground pixel, by the type of the picture.\<close>

definition sky_color :: "string \<Rightarrow> camera \<Rightarrow> real \<Rightarrow> color" where
  "sky_color ptype cam dst =
     (if ptype = ''depth'' then (if reflectSky cam then gray (255 * dst) else gray 0)
      else if ptype = ''color'' then rgb 0 0 128
      else gray (128 / 3))"

definition ground_pixel_color ::
  "string \<Rightarrow> state \<Rightarrow> camera \<Rightarrow> area option \<Rightarrow> nat \<Rightarrow> nat \<Rightarrow> real \<Rightarrow> error + color" where
  "ground_pixel_color ptype st cam ar i j dst =
     (if ptype = ''depth'' then Inr (if reflectGround cam then gray (255 * dst) else gray 0)
      else if ptype = ''color'' then get_ground_color st cam ar i j
      else Inr (gray (128 / 3)))"

text \<open>The body of the loop over the rows \<open>j\<close> of column \<open>i\<close>.\<close>

definition paint_row ::
  "string \<Rightarrow> state \<Rightarrow> camera \<Rightarrow> area option \<Rightarrow> nat \<Rightarrow> real \<Rightarrow> color \<Rightarrow> nat \<Rightarrow> picture
     \<Rightarrow> error + picture" where
  "paint_row ptype st cam ar i high hcolor j pic =
     (let H = real_of_int (snd (cameraShape cam)); horizon = H / 2
      in if horizon = 0 then Inl ZeroDivisionError
         else
           (let dst = clamp01 (\<bar>real j - horizon\<bar> / horizon)
            in if real j < high / 2 then
                 putpixel (int i, int j) (to_tuple (sky_color ptype cam dst)) pic
               else if real j < H - high / 2 then
                 putpixel (int i, int j) (to_tuple hcolor) pic
               else
                 (case ground_pixel_color ptype st cam ar i j dst of
                    Inl e \<Rightarrow> Inl e
                  | Inr c \<Rightarrow> putpixel (int i, int j) (to_tuple c) pic)))"

text \<open>
  The body of the first loop over the columns. \<open>wall_hit\<close> is the choice of the wall:
  the last of the hits of height 1.0, or \<open>None\<close> where the column is left by
  \<open>continue\<close>. A hit is an object, so \<open>if hit:\<close> takes its first branch.
\<close>

definition wall_hit :: "hit list \<Rightarrow> hit option" where
  "wall_hit hs =
     (let ws = filter (\<lambda>h. height h = 1) hs in if length ws = 0 then None else Some (last ws))"

definition wall_column ::
  "string \<Rightarrow> state \<Rightarrow> camera \<Rightarrow> area option \<Rightarrow> real \<Rightarrow> nat \<Rightarrow> picture \<Rightarrow> error + picture" where
  "wall_column ptype st cam ar wsize i pic =
     (if i < length (hits cam) then
        (case wall_hit (hits cam ! i) of
           None \<Rightarrow> Inr pic
         | Some h \<Rightarrow>
             (case ratios cam wsize h of
                Inl e \<Rightarrow> Inl e
              | Inr (distance_ratio, s, sc) \<Rightarrow>
                  (let hcolor = shade ptype h distance_ratio sc;
                       high = (1 - s) * of_int (snd (cameraShape cam))
                   in for_each (paint_row ptype st cam ar i high hcolor)
                        [0..<nat (snd (cameraShape cam))] pic)))
      else Inl IndexError)"

subsection \<open>\<open>take_picture\<close>: the other robots\<close>

text \<open>
  \<open>Camera.record_obstacle\<close>: the table \<open>self.obstacles\<close>, keyed by the robot's name, in
  the order of insertion. A new entry starts with the bounds at plus and minus
  infinity, so after the first update they are the values given.
\<close>

definition record_obstacle ::
  "state \<Rightarrow> robot_ref \<Rightarrow> int \<Rightarrow> int \<Rightarrow> int \<Rightarrow> (string \<times> obstacle) list
     \<Rightarrow> (string \<times> obstacle) list" where
  "record_obstacle st r xi y1 y2 obs =
     (let nm = robot_name (robot_of st r)
      in case map_of obs nm of
           None \<Rightarrow>
             obs @ [(nm, \<lparr>ob_robot = r, max_x = xi, max_y = max y1 y2,
                           min_x = xi, min_y = min y1 y2\<rparr>)]
         | Some _ \<Rightarrow>
             map (\<lambda>(k, v).
                    if k = nm
                    then (k, v\<lparr>max_x := max (max_x v) xi, min_x := min (min_x v) xi,
                              max_y := max (max (max_y v) y1) y2,
                              min_y := min (min (min_y v) y1) y2\<rparr>)
                    else (k, v)) obs)"

text \<open>The body of the loop over the obstacle hits of column \<open>i\<close>, after the test for \<open>break\<close>.\<close>

definition draw_obstacle ::
  "string \<Rightarrow> state \<Rightarrow> camera \<Rightarrow> real \<Rightarrow> nat \<Rightarrow> hit \<Rightarrow> picture \<times> (string \<times> obstacle) list
     \<Rightarrow> error + (picture \<times> (string \<times> obstacle) list)" where
  "draw_obstacle ptype st cam wsize i h acc =
     (case ratios cam wsize h of
        Inl e \<Rightarrow> Inl e
      | Inr (distance_ratio, s, sc) \<Rightarrow>
          (let H = snd (cameraShape cam);
               distance_to = of_int H / 2 * (1 - sc);
               band = py_round (height h * of_int H / 2 * s);
               hcolor = shade ptype h distance_ratio sc
           in case hit_robot h of
                None \<Rightarrow> Inl AttributeError
              | Some r \<Rightarrow>
                  (let obs = record_obstacle st r (int i) (H - 1 - py_round distance_to)
                               (H - band - 1 - 1 - py_round distance_to) (snd acc)
                   in if \<not> has_image (robot_of st r) then
                        (case for_each
                                (\<lambda>j. putpixel (int i, H - int j - 1 - py_round distance_to)
                                        (to_tuple hcolor))
                                [0..<nat band] (fst acc) of
                           Inl e \<Rightarrow> Inl e
                         | Inr pic \<Rightarrow> Inr (pic, obs))
                      else Inr (fst acc, obs))))"

text \<open>The loop over the obstacle hits of a column, which \<open>break\<close> leaves.\<close>

fun obstacle_hits ::
  "string \<Rightarrow> state \<Rightarrow> camera \<Rightarrow> real \<Rightarrow> nat \<Rightarrow> real option \<Rightarrow> hit list
     \<Rightarrow> picture \<times> (string \<times> obstacle) list \<Rightarrow> error + (picture \<times> (string \<times> obstacle) list)" where
  "obstacle_hits ptype st cam wsize i closest_wall_dist [] acc = Inr acc"
| "obstacle_hits ptype st cam wsize i closest_wall_dist (h # hs) acc =
     (if behind (distance h) closest_wall_dist then Inr acc
      else (case draw_obstacle ptype st cam wsize i h acc of
              Inl e \<Rightarrow> Inl e
            | Inr acc' \<Rightarrow> obstacle_hits ptype st cam wsize i closest_wall_dist hs acc'))"

definition obstacle_column ::
  "string \<Rightarrow> state \<Rightarrow> camera \<Rightarrow> real \<Rightarrow> nat \<Rightarrow> picture \<times> (string \<times> obstacle) list
     \<Rightarrow> error + (picture \<times> (string \<times> obstacle) list)" where
  "obstacle_column ptype st cam wsize i acc =
     (if i < length (hits cam) then
        obstacle_hits ptype st cam wsize i (find_closest_wall (hits cam ! i))
          (filter (\<lambda>h. height h < 1) (hits cam ! i)) acc
      else Inl IndexError)"

text \<open>
  \<open>Camera.show_obstacles\<close>: a recorded robot that has a sprite image is pasted into its
  box. Choosing the sprite by the bearing, scaling and pasting it are the parameter
  \<open>paste\<close>, whose result \<open>None\<close> is an exception inside the \<open>try\<close>.
\<close>

definition show_obstacles ::
  "(state \<Rightarrow> camera \<Rightarrow> obstacle \<Rightarrow> picture \<Rightarrow> picture option) \<Rightarrow> camera \<Rightarrow> picture \<times> state
     \<Rightarrow> picture \<times> state" where
  "show_obstacles paste cam acc =
     fold (\<lambda>(nm, ob) (pic, st).
             if has_image (robot_of st (ob_robot ob)) then
               (case paste st cam ob pic of
                  Some pic' \<Rightarrow> (pic', st)
                | None \<Rightarrow> (pic, print ''Exception in processing image'' st))
             else (pic, st))
          (obstacles cam) acc"

subsection \<open>\<open>take_picture\<close>\<close>

text \<open>
  \<open>PIL\<close> tells whether the import of \<open>PIL\<close> succeeds. The result is the returned value
  (\<open>None\<close> or the picture), the camera and the state.
\<close>

definition take_picture ::
  "bool \<Rightarrow> (state \<Rightarrow> robot_ref \<Rightarrow> real \<Rightarrow> real \<Rightarrow> real \<Rightarrow> real \<Rightarrow> hit list)
     \<Rightarrow> (robot_ref \<Rightarrow> real \<Rightarrow> real \<Rightarrow> real \<Rightarrow> real \<Rightarrow> real \<times> real)
     \<Rightarrow> (state \<Rightarrow> camera \<Rightarrow> obstacle \<Rightarrow> picture \<Rightarrow> picture option)
     \<Rightarrow> string \<Rightarrow> camera \<Rightarrow> state \<Rightarrow> error + (picture option \<times> camera \<times> state)" where
  "take_picture PIL cast_ray rotate_around paste ptype cam st =
     (if \<not> PIL then
        Inr (None, cam, print ''Pillow (PIL) module not available; take_picture() unavailable'' st)
      else
        (case lazy_update cast_ray st cam of
           Inl e \<Rightarrow> Inl e
         | Inr cam1 \<Rightarrow>
        (case the_world st cam1 of
           Inl e \<Rightarrow> Inl e
         | Inr (r, w) \<Rightarrow>
        (case (if ground_image (world_of st w) \<noteq> None
               then (case get_visible_area rotate_around st cam1 of
                       Inl e \<Rightarrow> Inl e | Inr ar \<Rightarrow> Inr (Some ar))
               else Inr None) of
           Inl e \<Rightarrow> Inl e
         | Inr ar \<Rightarrow>
        (case Image_new (cameraShape cam1) of
           Inl e \<Rightarrow> Inl e
         | Inr pic \<Rightarrow>
        (let wsize = max (world_width (world_of st w)) (world_height (world_of st w));
             columns = [0..<nat (fst (cameraShape cam1))]
         in case for_each (wall_column ptype st cam1 ar wsize) columns pic of
              Inl e \<Rightarrow> Inl e
            | Inr pic1 \<Rightarrow>
           (case for_each (obstacle_column ptype st cam1 wsize) columns (pic1, []) of
              Inl e \<Rightarrow> Inl e
            | Inr (pic2, obs) \<Rightarrow>
                (let cam2 = cam1\<lparr>obstacles := obs\<rparr>;
                     res = show_obstacles paste cam2 (pic2, st)
                 in Inr (Some (fst res), cam2, snd res)))))))))"

section \<open>Example inputs\<close>

text \<open>
  A world of 100 by 50 units without a ground image, whose robots are the viewer
  (robot 0) and two others named A (robot 1) and B (robot 2), all without sprite images.
\<close>

definition demo_robot :: "string \<Rightarrow> robot" where
  "demo_robot nm =
     \<lparr>robot_name = nm, robot_x = 10, robot_y = 10, direction = 0, robot_color = rgb 255 0 0,
      bounding_lines = [], has_image = False, world = Some 0\<rparr>"

definition demo_world :: world_obj where
  "demo_world =
     \<lparr>world_width = 100, world_height = 50, world_scale = 3, world_time = 0,
      ground_color = rgb 0 128 0, ground_image = None, robots = [0, 1, 2], walls = [],
      watchers = []\<rparr>"

definition demo_state :: state where
  "demo_state =
     \<lparr>robot_of = (\<lambda>r. demo_robot (if r = 1 then ''A'' else if r = 2 then ''B'' else ''viewer'')),
      world_of = (\<lambda>w. demo_world), stdout = [], drawn = 0\<rparr>"

text \<open>Rays: one that hits a wall exactly at its maximum range, and one that returns a given list.\<close>

definition wall_at :: "real \<Rightarrow> hit" where
  "wall_at d = \<lparr>hit_robot = None, height = 1, distance = d, hit_color = rgb 128 0 128\<rparr>"

definition probe_ray :: "state \<Rightarrow> robot_ref \<Rightarrow> real \<Rightarrow> real \<Rightarrow> real \<Rightarrow> real \<Rightarrow> hit list" where
  "probe_ray st r x0 y0 a maxRange = [wall_at maxRange]"

definition fixed_ray ::
  "hit list \<Rightarrow> state \<Rightarrow> robot_ref \<Rightarrow> real \<Rightarrow> real \<Rightarrow> real \<Rightarrow> real \<Rightarrow> hit list" where
  "fixed_ray hs st r x0 y0 a maxRange = hs"

definition no_rotate :: "robot_ref \<Rightarrow> real \<Rightarrow> real \<Rightarrow> real \<Rightarrow> real \<Rightarrow> real \<times> real" where
  "no_rotate r cx cy len a = (cx + len, cy)"

definition no_paste :: "state \<Rightarrow> camera \<Rightarrow> obstacle \<Rightarrow> picture \<Rightarrow> picture option" where
  "no_paste st cam ob pic = None"

definition hit_A :: hit where
  "hit_A = \<lparr>hit_robot = Some 1, height = 1 / 4, distance = 20, hit_color = rgb 255 0 0\<rparr>"

definition hit_B :: hit where
  "hit_B = \<lparr>hit_robot = Some 2, height = 1 / 4, distance = 80, hit_color = rgb 0 0 255\<rparr>"

definition far_first_hits :: "hit list" where
  "far_first_hits = [wall_at 90, hit_B, wall_at 50, hit_A]"

definition no_random :: "nat \<Rightarrow> real" where
  "no_random k = 0"

definition no_update :: "nat \<Rightarrow> state \<Rightarrow> state" where
  "no_update k st = st"

definition demo_watcher :: "camera \<Rightarrow> watcher" where
  "demo_watcher cam = 0"

definition demo_widget :: "watcher \<Rightarrow> widget" where
  "demo_widget w = w"

text \<open>Cameras: the default one, not attached; small ones attached to the viewer.\<close>

definition fresh_camera :: camera where
  "fresh_camera = Camera 256 128 60 (1 / 2) 1 True False 1000"

definition short_range_camera :: camera where
  "short_range_camera = (Camera 4 2 90 (1 / 2) 1 True False 100)\<lparr>robot := Some 0\<rparr>"

definition column_camera :: camera where
  "column_camera = (Camera 1 8 60 (1 / 2) 1 True False 1000)\<lparr>robot := Some 0\<rparr>"

section \<open>Properties of Color\<close>

lemma hex_char_digit_all:
  "\<forall>d\<in>set [0..<16]. hex_digit_value (hex_char d) = Some (int d) \<and> \<not> is_space (hex_char d)
     \<and> hex_char d \<notin> set [CHR ''_'', CHR ''-'', CHR ''+'', CHR ''x'', CHR ''X'']"
  by (simp add: upt_rec hex_char_def hex_digit_value_def is_space_def)

lemma hex_char_digit:
  assumes "d < 16"
  shows "hex_digit_value (hex_char d) = Some (int d)" and "\<not> is_space (hex_char d)"
    and "hex_char d \<notin> set [CHR ''_'', CHR ''-'', CHR ''+'', CHR ''x'', CHR ''X'']"
  using assms hex_char_digit_all by simp_all

lemma hex_digits_byte:
  "n < 256 \<Longrightarrow> hex_digits n [] =
     (if n < 16 then [hex_char n] else [hex_char (n div 16), hex_char (n mod 16)])"
  by (simp add: hex_digits.simps [of n] hex_digits.simps [of "n div 16"] div_less_iff_less_mult)

lemma format_02X_byte:
  assumes "0 \<le> n" "n \<le> 255"
  shows "format_02X n = [hex_char (nat n div 16), hex_char (nat n mod 16)]"
proof -
  have "nat \<bar>n\<bar> < 256" using assms by simp
  from hex_digits_byte [OF this] show ?thesis
    using assms by (auto simp: format_02X_def hex_char_def)
qed

lemma format_02X_length: "0 \<le> n \<Longrightarrow> n \<le> 255 \<Longrightarrow> length (format_02X n) = 2"
  by (simp add: format_02X_byte)

lemma int_base16_two_digits:
  assumes "h < 16" "l < 16"
  shows "int_base16 [hex_char h, hex_char l] = Inr (16 * int h + int l)"
  using hex_char_digit [OF assms(1)] hex_char_digit [OF assms(2)]
  by (auto simp: int_base16_def strip_def Let_def)

lemma int_base16_format_02X:
  assumes "0 \<le> n" "n \<le> 255"
  shows "int_base16 (format_02X n) = Inr n"
proof -
  have h: "nat n div 16 < 16" and l: "nat n mod 16 < 16" using assms by auto
  have "int_base16 (format_02X n) = Inr (16 * int (nat n div 16) + int (nat n mod 16))"
    using int_base16_two_digits [OF h l] format_02X_byte [OF assms] by simp
  also have "16 * int (nat n div 16) + int (nat n mod 16) = n"
    using assms by (simp add: zdiv_int zmod_int)
  finally show ?thesis .
qed

lemma py_int_of_int: "py_int (of_int n) = n"
  by (simp add: py_int_def)

lemma hex_to_rgba_hexcode:
  assumes "length rs = 2" "length gs = 2" "length bs = 2" "length as = 2"
  shows "hex_to_rgba (''#'' @ rs @ gs @ bs @ as) =
     (case int_base16 rs of Inl e \<Rightarrow> Inl e | Inr r \<Rightarrow>
     (case int_base16 gs of Inl e \<Rightarrow> Inl e | Inr g \<Rightarrow>
     (case int_base16 bs of Inl e \<Rightarrow> Inl e | Inr b \<Rightarrow>
     (case int_base16 as of Inl e \<Rightarrow> Inl e | Inr a \<Rightarrow> Inr (r, g, b, a)))))"
  using assms by (simp add: hex_to_rgba_def)

text \<open>
  Claim C6. For all integers \<open>r\<close>, \<open>g\<close>, \<open>b\<close>, \<open>a\<close> in [0, 255], the colour
  \<open>Color(r, g, b, a)\<close> is constructed, its \<open>to_hexcode()\<close> is parsed back by
  \<open>Color(hexcode)\<close> without an error, and the colour that results has red \<open>r\<close>, green
  \<open>g\<close>, blue \<open>b\<close> and alpha \<open>a\<close>.
\<close>

theorem color_hexcode_roundtrip:
  assumes "0 \<le> r \<and> r \<le> 255" "0 \<le> g \<and> g \<le> 255" "0 \<le> b \<and> b \<le> 255" "0 \<le> a \<and> a \<le> 255"
  shows "\<exists>c c'. Color COLORS (Num (of_int r)) (Some (of_int g)) (Some (of_int b)) (Some (of_int a))
                   = Inr c
     \<and> Color COLORS (Str (to_hexcode c)) None None None = Inr c'
     \<and> red c' = of_int r \<and> green c' = of_int g \<and> blue c' = of_int b \<and> alpha c' = of_int a"
proof -
  let ?c = "set_channels None (of_int r) (Some (of_int g)) (Some (of_int b)) (Some (of_int a))"
  have c: "Color COLORS (Num (of_int r)) (Some (of_int g)) (Some (of_int b)) (Some (of_int a))
             = Inr ?c"
    by (simp add: Color_def)
  have hex: "to_hexcode ?c = ''#'' @ format_02X r @ format_02X g @ format_02X b @ format_02X a"
    by (simp add: to_hexcode_def to_tuple_def set_channels_def py_int_of_int)
  have "hex_to_rgba (''#'' @ format_02X r @ format_02X g @ format_02X b @ format_02X a) =
     (case int_base16 (format_02X r) of Inl e \<Rightarrow> Inl e | Inr r' \<Rightarrow>
     (case int_base16 (format_02X g) of Inl e \<Rightarrow> Inl e | Inr g' \<Rightarrow>
     (case int_base16 (format_02X b) of Inl e \<Rightarrow> Inl e | Inr b' \<Rightarrow>
     (case int_base16 (format_02X a) of Inl e \<Rightarrow> Inl e | Inr a' \<Rightarrow> Inr (r', g', b', a')))))"
    using assms by (intro hex_to_rgba_hexcode) (simp_all add: format_02X_length)
  then have rgba: "hex_to_rgba (to_hexcode ?c) = Inr (r, g, b, a)"
    unfolding hex using assms by (simp add: int_base16_format_02X)
  have "take 1 (to_hexcode ?c) = ''#''" unfolding hex by simp
  then have "Color COLORS (Str (to_hexcode ?c)) None None None = Inr ?c"
    using rgba by (simp add: Color_def)
  with c show ?thesis by (auto simp: set_channels_def)
qed

theorem color_hexcode_roundtrip_witness:
  "\<exists>c c'. Color Map.empty (Num 18) (Some 52) (Some 171) (Some 255) = Inr c
     \<and> Color Map.empty (Str (to_hexcode c)) None None None = Inr c'
     \<and> red c' = 18 \<and> green c' = 52 \<and> blue c' = 171 \<and> alpha c' = 255"
  using color_hexcode_roundtrip [of 18 52 171 255 Map.empty] by simp

text \<open>
  Claim C10. \<open>Color(n)\<close> on a single number is the gray colour with red, green and blue
  equal to \<open>n\<close> and alpha 255; \<open>Color\<close> on a sequence of three elements takes them as
  red, green and blue and sets alpha to 255. No channel is left undefined.
\<close>

theorem color_defaults:
  "Color COLORS (Num (of_int n)) None None None
     = Inr \<lparr>name = None, red = of_int n, green = of_int n, blue = of_int n, alpha = 255\<rparr>
   \<and> Color COLORS (Seq [r, g, b]) g0 b0 a0
     = Inr \<lparr>name = None, red = r, green = g, blue = b, alpha = 255\<rparr>"
  by (simp add: Color_def set_channels_def)

theorem color_defaults_witness:
  "Color Map.empty (Num 200) None None None
     = Inr \<lparr>name = None, red = 200, green = 200, blue = 200, alpha = 255\<rparr>
   \<and> Color Map.empty (Seq [1, 2, 3]) None None None
     = Inr \<lparr>name = None, red = 1, green = 2, blue = 3, alpha = 255\<rparr>"
  using color_defaults [of Map.empty 200 1 2 3 None None None] by simp

section \<open>Properties of the world\<close>

text \<open>
  Claim C8. When robot \<open>r\<close> is already in the robot list of the world, \<open>add_robot\<close>
  raises nothing and changes nothing but the output: the robot list and the walls (and
  every object of the store) are as before, and the message is printed.
\<close>

theorem add_robot_twice_rejected:
  assumes "r \<in> set (robots (world_of st self))"
  shows "add_robot random update_robot draw self r st
           = st\<lparr>stdout := stdout st @ [''Can't add the same robot to a world more than once.'']\<rparr>
     \<and> robots (world_of (add_robot random update_robot draw self r st) self)
           = robots (world_of st self)
     \<and> walls (world_of (add_robot random update_robot draw self r st) self)
           = walls (world_of st self)"
  using assms by (simp add: add_robot_def print_def)

theorem add_robot_twice_rejected_witness:
  "add_robot no_random no_update no_update 0 1 demo_state
     = demo_state\<lparr>stdout := [''Can't add the same robot to a world more than once.'']\<rparr>
   \<and> robots (world_of (add_robot no_random no_update no_update 0 1 demo_state) 0) = [0, 1, 2]
   \<and> walls (world_of (add_robot no_random no_update no_update 0 1 demo_state) 0) = []"
  using add_robot_twice_rejected [of 1 demo_state 0 no_random no_update no_update]
  by (simp add: demo_state_def demo_world_def)

section \<open>Properties of the camera\<close>

lemmas camera_defs = Camera_def from_json_def initialize_def set_fov_def reset_def

lemmas demo_defs = demo_state_def demo_world_def demo_robot_def

lemmas picture_defs = take_picture_def lazy_update_def the_world_def the_robot_def
  update_column_def column_ray_def Image_new_def wall_column_def wall_hit_def
  obstacle_column_def find_closest_wall_def behind_def draw_obstacle_def record_obstacle_def
  show_obstacles_def ratios_def fade_def clamp01_def shade_def paint_row_def putpixel_def
  sky_color_def ground_pixel_color_def get_ground_color_def to_tuple_def py_int_def
  py_round_def rgb_def gray_def set_channels_def fixed_ray_def hit_A_def hit_B_def wall_at_def

lemma for_each_append:
  "for_each body (xs @ ys) s =
     (case for_each body xs s of Inl e \<Rightarrow> Inl e | Inr s' \<Rightarrow> for_each body ys s')"
  by (induction xs arbitrary: s) (auto split: sum.splits)

lemma for_each_preserves:
  assumes "for_each body xs s = Inr s'"
    and "\<And>a t t'. a \<in> set xs \<Longrightarrow> body a t = Inr t' \<Longrightarrow> f t' = f t"
  shows "f s' = f s"
  using assms
proof (induction xs arbitrary: s)
  case Nil
  then show ?case by simp
next
  case (Cons a xs)
  from Cons.prems(1) obtain t where t: "body a s = Inr t" and rest: "for_each body xs t = Inr s'"
    by (auto split: sum.splits)
  have "f s' = f t"
  proof (rule Cons.IH [OF rest])
    fix b u u' assume "b \<in> set xs" "body b u = Inr u'"
    then show "f u' = f u" using Cons.prems(2) [of b u u'] by simp
  qed
  moreover have "f t = f s" using Cons.prems(2) [of a s t] t by simp
  ultimately show ?case by simp
qed

subsection \<open>The rays of \<open>_update\<close>\<close>

lemma update_columns:
  assumes "n \<le> length (hits cam)"
  shows "for_each (update_column cast_ray st r) [0..<n] cam =
     Inr (cam\<lparr>hits := map (column_ray cast_ray st r cam) [0..<n] @ drop n (hits cam)\<rparr>)"
  using assms
proof (induction n)
  case 0
  then show ?case by simp
next
  case (Suc n)
  let ?c = "cam\<lparr>hits := map (column_ray cast_ray st r cam) [0..<n] @ drop n (hits cam)\<rparr>"
  have n: "n < length (hits cam)" using Suc.prems by simp
  have IH: "for_each (update_column cast_ray st r) [0..<n] cam = Inr ?c"
    using Suc by simp
  have len: "n < length (hits ?c)" using n by simp
  have upd: "(map (column_ray cast_ray st r cam) [0..<n] @ drop n (hits cam))[n := v]
      = map (column_ray cast_ray st r cam) [0..<n] @ v # drop (Suc n) (hits cam)" for v
    using n by (simp add: list_update_append Cons_nth_drop_Suc [symmetric] del: upt_Suc)
  have ray: "column_ray cast_ray st r ?c n = column_ray cast_ray st r cam n"
    by (simp add: column_ray_def)
  have step: "update_column cast_ray st r n ?c =
     Inr (cam\<lparr>hits := map (column_ray cast_ray st r cam) [0..<Suc n] @ drop (Suc n) (hits cam)\<rparr>)"
    using len upd ray by (simp add: update_column_def Let_def)
  show ?case
    using IH step by (simp add: for_each_append del: upt_Suc add: upt_Suc_append)
qed

text \<open>
  What \<open>_update\<close> does for every camera that is attached and whose buffer is long enough:
  column \<open>i\<close> receives the ray cast from the robot's position at the angle
  \<open>\<pi>/2 - direction - (i/width \<cdot> angle - angle/2)\<close>, with the range 1000 whatever
  \<open>max_range\<close> is.
\<close>

lemma lazy_update_rays:
  assumes "robot cam = Some r" "world (robot_of st r) = Some w"
    and "nat (fst (cameraShape cam)) \<le> length (hits cam)"
  shows "\<exists>cam'. lazy_update cast_ray st cam = Inr cam' \<and>
     (\<forall>i < nat (fst (cameraShape cam)).
        hits cam' ! i =
          cast_ray st r (robot_x (robot_of st r)) (robot_y (robot_of st r))
            (pi / 2 - direction (robot_of st r)
               - (real i / real_of_int (fst (cameraShape cam)) * angle cam - angle cam / 2))
            1000)"
proof -
  let ?c = "cam\<lparr>time := world_time (world_of st w)\<rparr>"
  let ?n = "nat (fst (cameraShape cam))"
  let ?c' = "?c\<lparr>hits := map (column_ray cast_ray st r ?c) [0..<?n] @ drop ?n (hits ?c)\<rparr>"
  have "for_each (update_column cast_ray st r) [0..<?n] ?c = Inr ?c'"
    using assms(3) by (intro update_columns) simp
  then have "lazy_update cast_ray st cam = Inr ?c'"
    using assms(1,2) by (simp add: lazy_update_def the_world_def the_robot_def)
  then show ?thesis by (simp add: nth_append column_ray_def)
qed

text \<open>
  Claim C1. The claim is that \<open>_update\<close> casts the ray of every column with the
  camera's \<open>max_range\<close> as the maximum distance. The code passes the constant 1000:
  for a camera configured with \<open>max_range = 100\<close>, attached to a robot whose ray returns
  a wall at exactly the maximum distance it is given, every column of the hit buffer
  holds a hit at distance 1000.
\<close>

theorem update_ignores_max_range:
  "max_range short_range_camera = 100
   \<and> lazy_update probe_ray demo_state short_range_camera
       = Inr (short_range_camera\<lparr>hits := replicate 4 [wall_at 1000]\<rparr>)"
  by (simp add: lazy_update_def the_world_def the_robot_def short_range_camera_def camera_defs
      demo_defs update_column_def column_ray_def probe_ray_def upt_rec numeral_eq_Suc)

subsection \<open>The configuration\<close>




subsection \<open>The closest wall\<close>

lemma wall_hit_snoc:
  "wall_hit (hs @ [h]) = (if height h = 1 then Some h else wall_hit hs)"
  by (simp add: wall_hit_def Let_def)

lemma find_closest_wall_snoc:
  "find_closest_wall (hs @ [h])
     = (if height h < 1 then find_closest_wall hs else Some (distance h))"
  by (simp add: find_closest_wall_def)

lemma find_closest_wall_wall_hit:
  "\<forall>h\<in>set hs. height h \<le> 1 \<Longrightarrow> find_closest_wall hs = map_option distance (wall_hit hs)"
proof (induction hs rule: rev_induct)
  case Nil
  then show ?case by (simp add: find_closest_wall_def wall_hit_def)
next
  case (snoc h hs)
  then show ?case
    by (auto simp: find_closest_wall_snoc wall_hit_snoc)
qed

lemma wall_hit_decomp:
  "(\<exists>pre h post. hs = pre @ h # post \<and> height h = 1 \<and> (\<forall>g\<in>set post. height g \<noteq> 1)
       \<and> wall_hit hs = Some h)
   \<or> ((\<forall>g\<in>set hs. height g \<noteq> 1) \<and> wall_hit hs = None)"
proof (induction hs rule: rev_induct)
  case Nil
  then show ?case by (simp add: wall_hit_def)
next
  case (snoc a hs)
  show ?case
  proof (cases "height a = 1")
    case True
    then have "hs @ [a] = hs @ a # [] \<and> height a = 1 \<and> (\<forall>g\<in>set []. height g \<noteq> 1)
        \<and> wall_hit (hs @ [a]) = Some a"
      by (simp add: wall_hit_snoc)
    then show ?thesis by blast
  next
    case False
    from snoc.IH show ?thesis
    proof
      assume "\<exists>pre h post. hs = pre @ h # post \<and> height h = 1
                \<and> (\<forall>g\<in>set post. height g \<noteq> 1) \<and> wall_hit hs = Some h"
      then obtain pre h post where *: "hs = pre @ h # post" "height h = 1"
          "\<forall>g\<in>set post. height g \<noteq> 1" "wall_hit hs = Some h"
        by blast
      have w: "wall_hit (hs @ [a]) = Some h"
        using False *(4) by (simp add: wall_hit_snoc)
      have "hs @ [a] = pre @ h # (post @ [a]) \<and> height h = 1
          \<and> (\<forall>g\<in>set (post @ [a]). height g \<noteq> 1)"
        using False * by simp
      with w show ?thesis by blast
    next
      assume "(\<forall>g\<in>set hs. height g \<noteq> 1) \<and> wall_hit hs = None"
      then show ?thesis using False by (simp add: wall_hit_snoc)
    qed
  qed
qed

text \<open>
  Claim C3. For a hit list whose heights are at most 1.0, as a ray cast returns it:
  \<open>find_closest_wall\<close> returns the distance of the hit that \<open>take_picture\<close> chooses as
  the wall of the column (\<open>wall_hit\<close>); that hit is the last hit of height 1.0 in the
  list, every hit after it being lower and skipped, and without such a hit the result
  is infinity (\<open>None\<close>) and the column has no wall; and when the list is ordered
  farthest first, the distance returned is at most the distance of every hit of height
  1.0, so it is the closest wall.
\<close>

theorem find_closest_wall_last_full_height:
  assumes "\<forall>h\<in>set hs. height h \<le> 1"
  shows "find_closest_wall hs = map_option distance (wall_hit hs)
     \<and> ((\<exists>pre h post. hs = pre @ h # post \<and> height h = 1 \<and> (\<forall>g\<in>set post. height g < 1)
            \<and> wall_hit hs = Some h \<and> find_closest_wall hs = Some (distance h))
         \<or> ((\<forall>g\<in>set hs. height g < 1) \<and> wall_hit hs = None \<and> find_closest_wall hs = None))
     \<and> (sorted_wrt (\<lambda>a b. distance b \<le> distance a) hs \<longrightarrow>
          (\<forall>g\<in>set hs. height g = 1 \<longrightarrow>
             (\<exists>d. find_closest_wall hs = Some d \<and> d \<le> distance g)))"
proof -
  have eq: "find_closest_wall hs = map_option distance (wall_hit hs)"
    by (rule find_closest_wall_wall_hit [OF assms])
  have low: "height g \<noteq> 1 \<Longrightarrow> g \<in> set hs \<Longrightarrow> height g < 1" for g
    using assms by force
  consider (wall) pre h post where "hs = pre @ h # post" "height h = 1"
      "\<forall>g\<in>set post. height g \<noteq> 1" "wall_hit hs = Some h"
    | (none) "\<forall>g\<in>set hs. height g \<noteq> 1" "wall_hit hs = None"
    using wall_hit_decomp [of hs] by (elim disjE exE conjE) auto
  then show ?thesis
  proof cases
    case wall
    have post: "\<forall>g\<in>set post. height g < 1"
      using wall(1,3) low by auto
    have d: "find_closest_wall hs = Some (distance h)"
      using eq wall(4) by simp
    have closest: "distance h \<le> distance g"
      if "sorted_wrt (\<lambda>a b. distance b \<le> distance a) hs" "g \<in> set hs" "height g = 1" for g
    proof -
      from that(2,3) wall(1,3) have "g \<in> set pre \<or> g = h" by auto
      with that(1) wall(1) show ?thesis by (auto simp: sorted_wrt_append)
    qed
    have ex: "\<exists>pre h post. hs = pre @ h # post \<and> height h = 1 \<and> (\<forall>g\<in>set post. height g < 1)
            \<and> wall_hit hs = Some h \<and> find_closest_wall hs = Some (distance h)"
      using wall(1,2,4) post d by blast
    have far: "sorted_wrt (\<lambda>a b. distance b \<le> distance a) hs \<longrightarrow>
          (\<forall>g\<in>set hs. height g = 1 \<longrightarrow>
             (\<exists>d. find_closest_wall hs = Some d \<and> d \<le> distance g))"
      using d closest by blast
    show ?thesis
      by (rule conjI [OF eq conjI [OF disjI1 [OF ex] far] ])
  next
    case none
    then have all: "(\<forall>g\<in>set hs. height g < 1) \<and> wall_hit hs = None
        \<and> find_closest_wall hs = None"
      using low eq by auto
    have far: "sorted_wrt (\<lambda>a b. distance b \<le> distance a) hs \<longrightarrow>
          (\<forall>g\<in>set hs. height g = 1 \<longrightarrow>
             (\<exists>d. find_closest_wall hs = Some d \<and> d \<le> distance g))"
      using none(1) by blast
    show ?thesis
      by (rule conjI [OF eq conjI [OF disjI2 [OF all] far] ])
  qed
qed

theorem find_closest_wall_last_full_height_witness:
  "list_all (\<lambda>h. height h \<le> 1) far_first_hits
   \<and> sorted_wrt (\<lambda>a b. distance b \<le> distance a) far_first_hits
   \<and> find_closest_wall far_first_hits = map_option distance (wall_hit far_first_hits)
   \<and> wall_hit far_first_hits = Some (wall_at 50)
   \<and> (\<exists>d. find_closest_wall far_first_hits = Some d \<and> d \<le> distance (wall_at 90))"
proof -
  have h: "\<forall>h\<in>set far_first_hits. height h \<le> 1"
    by (simp add: far_first_hits_def wall_at_def hit_A_def hit_B_def)
  have s: "sorted_wrt (\<lambda>a b. distance b \<le> distance a) far_first_hits"
    by (simp add: far_first_hits_def wall_at_def hit_A_def hit_B_def)
  have w: "wall_hit far_first_hits = Some (wall_at 50)"
    by (simp add: far_first_hits_def wall_hit_def wall_at_def hit_A_def hit_B_def)
  have m: "wall_at 90 \<in> set far_first_hits" "height (wall_at 90) = 1"
    by (simp_all add: far_first_hits_def wall_at_def)
  have l: "list_all (\<lambda>h. height h \<le> 1) far_first_hits"
    using h by (simp add: list_all_iff)
  from find_closest_wall_last_full_height [OF h] s m l w show ?thesis by blast
qed

subsection \<open>Fading\<close>

lemma fade_bounds:
  assumes "0 \<le> d" "0 < wsize" "0 \<le> f" "f \<le> 1"
  shows "\<exists>v. fade d wsize f = Inr v \<and> 0 \<le> v \<and> v \<le> 1 \<and> (d = 0 \<longrightarrow> v = 1)
     \<and> (wsize \<le> d \<longrightarrow> v \<le> 1 - f) \<and> (wsize \<le> d * f \<longrightarrow> v = 0)"
proof -
  have q: "0 \<le> d / wsize * f" using assms by simp
  have a: "wsize \<le> d \<Longrightarrow> 1 \<le> d / wsize" using assms by simp
  have b: "wsize \<le> d \<Longrightarrow> f \<le> d / wsize * f"
    using a assms(3) mult_right_mono [of 1 "d / wsize" f] by simp
  have c: "wsize \<le> d * f \<Longrightarrow> 1 \<le> d / wsize * f" using assms by (simp add: pos_le_divide_eq)
  show ?thesis using assms q b c
    by (auto simp: fade_def clamp01_def min_def max_def)
qed

text \<open>
  Claim C5, as amended. For a hit at a distance \<open>d \<ge> 0\<close>, a world size greater than 0
  and fade factors in [0, 1], \<open>take_picture\<close> computes \<open>s\<close> and \<open>sc\<close> without an error
  and both lie in [0, 1]; at \<open>d = 0\<close> they are 1; for \<open>d\<close> at or beyond the world size
  they are at most one minus their fade factor, and they are 0 where the distance
  times the factor reaches the world size (for a factor of 1: from the world size on).
\<close>

theorem fade_ratios_clamped:
  assumes "0 \<le> distance h" "0 < wsize"
    and "0 \<le> sizeFadeWithDistance cam \<and> sizeFadeWithDistance cam \<le> 1"
    and "0 \<le> colorsFadeWithDistance cam \<and> colorsFadeWithDistance cam \<le> 1"
  shows "\<exists>dr s sc. ratios cam wsize h = Inr (dr, s, sc)
     \<and> 0 \<le> s \<and> s \<le> 1 \<and> 0 \<le> sc \<and> sc \<le> 1
     \<and> (distance h = 0 \<longrightarrow> s = 1 \<and> sc = 1)
     \<and> (wsize \<le> distance h \<longrightarrow>
           s \<le> 1 - sizeFadeWithDistance cam \<and> sc \<le> 1 - colorsFadeWithDistance cam)
     \<and> (wsize \<le> distance h * sizeFadeWithDistance cam \<longrightarrow> s = 0)
     \<and> (wsize \<le> distance h * colorsFadeWithDistance cam \<longrightarrow> sc = 0)"
proof -
  from fade_bounds [OF assms(1,2), of "sizeFadeWithDistance cam"] assms(3)
  obtain s where s: "fade (distance h) wsize (sizeFadeWithDistance cam) = Inr s"
      "0 \<le> s" "s \<le> 1" "distance h = 0 \<longrightarrow> s = 1"
      "wsize \<le> distance h \<longrightarrow> s \<le> 1 - sizeFadeWithDistance cam"
      "wsize \<le> distance h * sizeFadeWithDistance cam \<longrightarrow> s = 0"
    by blast
  from fade_bounds [OF assms(1,2), of "colorsFadeWithDistance cam"] assms(4)
  obtain sc where sc: "fade (distance h) wsize (colorsFadeWithDistance cam) = Inr sc"
      "0 \<le> sc" "sc \<le> 1" "distance h = 0 \<longrightarrow> sc = 1"
      "wsize \<le> distance h \<longrightarrow> sc \<le> 1 - colorsFadeWithDistance cam"
      "wsize \<le> distance h * colorsFadeWithDistance cam \<longrightarrow> sc = 0"
    by blast
  have "ratios cam wsize h = Inr (clamp01 (1 - distance h / wsize), s, sc)"
    using assms(2) s(1) sc(1) by (simp add: ratios_def)
  with s(2-) sc(2-) show ?thesis by blast
qed

theorem fade_ratios_clamped_witness:
  "ratios fresh_camera 100 (wall_at 0) = Inr (1, 1, 1)
   \<and> (\<exists>dr s sc. ratios fresh_camera 100 (wall_at 200) = Inr (dr, s, sc) \<and> s = 0 \<and> sc = 0)"
proof -
  have sf: "sizeFadeWithDistance fresh_camera = 1" and cf: "colorsFadeWithDistance fresh_camera = 1 / 2"
    by (simp_all add: fresh_camera_def camera_defs)
  have d: "distance (wall_at 0) = 0" "distance (wall_at 200) = 200"
    by (simp_all add: wall_at_def)
  have "\<exists>dr s sc. ratios fresh_camera 100 (wall_at 0) = Inr (dr, s, sc) \<and> s = 1 \<and> sc = 1"
    using fade_ratios_clamped [of "wall_at 0" 100 fresh_camera] by (simp add: sf cf d)
  moreover have "ratios fresh_camera 100 (wall_at 0) = Inr (dr, 1, 1) \<Longrightarrow> dr = 1" for dr
    by (simp add: ratios_def fade_def clamp01_def sf cf d)
  moreover have "\<exists>dr s sc. ratios fresh_camera 100 (wall_at 200) = Inr (dr, s, sc) \<and> s = 0 \<and> sc = 0"
    using fade_ratios_clamped [of "wall_at 200" 100 fresh_camera] by (simp add: sf cf d)
  ultimately show ?thesis by auto
qed

text \<open>
  The claim as it was stated fails for a fade factor below 1: with the default
  \<open>colorsFadeWithDistance = 0.5\<close>, a hit at the world size has \<open>sc = 0.5\<close>.
\<close>

theorem fade_at_world_size_not_zero:
  "colorsFadeWithDistance fresh_camera = 1 / 2 \<and> distance (wall_at 100) = 100
   \<and> ratios fresh_camera 100 (wall_at 100) = Inr (0, 0, 1 / 2)"
  by (simp add: ratios_def fade_def clamp01_def fresh_camera_def camera_defs wall_at_def)

subsection \<open>Columns without a wall\<close>

lemma putpixel_other_column:
  assumes "putpixel (int k, j) v pic = Inr pic'" "i \<noteq> k"
  shows "pixels pic' (int i, j') = pixels pic (int i, j')"
  using assms by (auto simp: putpixel_def Let_def split: if_splits)

lemma paint_row_other_column:
  assumes "paint_row ptype st cam ar k high hcolor j pic = Inr pic'" "i \<noteq> k"
  shows "pixels pic' (int i, j') = pixels pic (int i, j')"
  using assms
  by (auto simp: paint_row_def Let_def split: if_splits sum.splits dest: putpixel_other_column)

lemma wall_column_other_column:
  assumes "wall_column ptype st cam ar wsize k pic = Inr pic'" "i \<noteq> k"
  shows "pixels pic' (int i, j') = pixels pic (int i, j')"
proof (cases "wall_hit (hits cam ! k)")
  case None
  then show ?thesis using assms by (auto simp: wall_column_def split: if_splits)
next
  case (Some h)
  with assms(1) obtain dr s sc where
    loop: "for_each (paint_row ptype st cam ar k ((1 - s) * of_int (snd (cameraShape cam)))
                       (shade ptype h dr sc))
             [0..<nat (snd (cameraShape cam))] pic = Inr pic'"
    by (auto simp: wall_column_def Let_def split: if_splits sum.splits)
  show ?thesis
    by (rule for_each_preserves [OF loop]) (rule paint_row_other_column [OF _ assms(2)])
qed

lemma wall_hit_None: "wall_hit hs = None \<longleftrightarrow> (\<forall>h\<in>set hs. height h \<noteq> 1)"
  by (auto simp: wall_hit_def Let_def filter_empty_conv)

lemma wall_column_no_wall:
  assumes "wall_column ptype st cam ar wsize i pic = Inr pic'"
    and "\<forall>h\<in>set (hits cam ! i). height h \<noteq> 1"
  shows "pic' = pic"
  using assms wall_hit_None [of "hits cam ! i"] by (auto simp: wall_column_def split: if_splits)

text \<open>
  Claim C4, as amended. In \<open>take_picture\<close>, a column whose hit list contains no hit of
  height 1.0 is skipped by the pass that paints walls, sky and ground: that pass is
  the loop of \<open>wall_column\<close> over the columns, started on the new image, and after it
  every pixel of such a column still has the initial value \<open>(0, 0, 0, 0)\<close>; no sky
  pixel is written and no horizon is computed.
\<close>

theorem no_wall_column_left_blank:
  assumes "i < length (hits cam)" "\<forall>h\<in>set (hits cam ! i). height h \<noteq> 1"
    and "Image_new (cameraShape cam) = Inr pic"
    and "for_each (wall_column ptype st cam ar wsize) [0..<nat (fst (cameraShape cam))] pic
           = Inr pic'"
  shows "pixels pic' (int i, j) = (0, 0, 0, 0)"
proof -
  have step: "pixels t' (int i, j) = pixels t (int i, j)"
    if w: "wall_column ptype st cam ar wsize k t = Inr t'" for k t t'
  proof (cases "k = i")
    case True
    with w have "wall_column ptype st cam ar wsize i t = Inr t'" by simp
    from wall_column_no_wall [OF this assms(2)] show ?thesis by simp
  next
    case False
    then show ?thesis using wall_column_other_column [OF w] by simp
  qed
  have "pixels pic' (int i, j) = pixels pic (int i, j)"
    by (rule for_each_preserves [OF assms(4)]) (rule step)
  moreover have "pixels pic (int i, j) = (0, 0, 0, 0)"
    using assms(3) by (auto simp: Image_new_def split: if_splits)
  ultimately show ?thesis by simp
qed

theorem no_wall_column_left_blank_witness:
  "pixels (projr (Image_new (1, 8))) (0, 3) = (0, 0, 0, 0)
   \<and> for_each (wall_column ''color'' demo_state (column_camera\<lparr>hits := [ [hit_A] ]\<rparr>) None 100)
        [0..<1] (projr (Image_new (1, 8))) = Inr (projr (Image_new (1, 8)))"
proof -
  let ?cam = "column_camera\<lparr>hits := [ [hit_A] ]\<rparr>"
  let ?pic = "projr (Image_new (1, 8))"
  have shape: "cameraShape column_camera = (1, 8)"
    by (simp add: column_camera_def camera_defs)
  have a: "0 < length (hits ?cam)" and b: "\<forall>h\<in>set (hits ?cam ! 0). height h \<noteq> 1"
    by (simp_all add: hit_A_def)
  have c: "Image_new (cameraShape ?cam) = Inr ?pic"
    by (simp add: shape Image_new_def)
  have d: "for_each (wall_column ''color'' demo_state ?cam None 100)
             [0..<nat (fst (cameraShape ?cam))] ?pic = Inr ?pic"
    by (simp add: shape wall_column_def wall_hit_def hit_A_def)
  from no_wall_column_left_blank [OF a b c d, of 3] d show ?thesis
    by (simp add: shape)
qed

text \<open>
  The claim as it was stated fails: the picture of a camera whose only column has no
  hit at all is the new image, untouched, and its top pixel is \<open>(0, 0, 0, 0)\<close> where a
  sky pixel of a colour picture is \<open>(0, 0, 128, 255)\<close>.
\<close>

theorem no_wall_column_not_sky:
  "take_picture True (fixed_ray []) no_rotate no_paste ''color'' column_camera demo_state
     = Inr (Some (projr (Image_new (1, 8))), column_camera\<lparr>hits := [ [] ]\<rparr>, demo_state)
   \<and> pixels (projr (Image_new (1, 8))) (0, 0) = (0, 0, 0, 0)
   \<and> to_tuple (sky_color ''color'' column_camera 1) = (0, 0, 128, 255)"
  by (simp add: picture_defs column_camera_def camera_defs demo_defs)

subsection \<open>Obstacles and the wall\<close>

text \<open>
  The loop over the obstacle hits of a column ends at the first hit that lies behind
  the wall: the hits that follow it in the list are not looked at, whatever their
  distance.
\<close>

lemma obstacle_hits_break:
  "behind (distance h) closest_wall_dist \<Longrightarrow>
     obstacle_hits ptype st cam wsize i closest_wall_dist (h # hs) acc = Inr acc"
  by simp

text \<open>
  Claim C2. The claim is that the overlay walks the obstacle hits nearest first and
  leaves out those behind the wall, so that of two robots in a column, A before the
  wall and B behind it, A's band is drawn and B's is not. The code walks the hits in
  the order of the list, which is farthest first by the convention of
  \<open>find_closest_wall\<close> and of the wall pass, and \<open>break\<close> ends the walk at B: for the
  column \<open>[B at 80, wall at 50, A at 20]\<close> no obstacle is recorded and the bottom
  pixel, where A's band belongs, is the ground; without B in the list, A is recorded
  and that pixel has A's colour.
\<close>

theorem near_robot_lost_behind_far_robot:
  "obstacles (fst (snd (projr
      (take_picture True (fixed_ray [hit_B, wall_at 50, hit_A]) no_rotate no_paste ''color''
         column_camera demo_state)))) = []
   \<and> pixels (the (fst (projr
      (take_picture True (fixed_ray [hit_B, wall_at 50, hit_A]) no_rotate no_paste ''color''
         column_camera demo_state)))) (0, 7) = (0, 128, 0, 255)
   \<and> obstacles (fst (snd (projr
      (take_picture True (fixed_ray [wall_at 50, hit_A]) no_rotate no_paste ''color''
         column_camera demo_state))))
       = [(''A'', \<lparr>ob_robot = 1, max_x = 0, max_y = 7, min_x = 0, min_y = 5\<rparr>)]
   \<and> pixels (the (fst (projr
      (take_picture True (fixed_ray [wall_at 50, hit_A]) no_rotate no_paste ''color''
         column_camera demo_state)))) (0, 7) = (229, 0, 0, 255)"
  by (simp add: picture_defs column_camera_def camera_defs demo_defs upt_rec numeral_eq_Suc)

subsection \<open>A camera that is not attached\<close>

lemma watch_unattached:
  assumes "robot cam = None \<or> (\<exists>r. robot cam = Some r \<and> world (robot_of st r) = None)"
  shows "watch CameraWatcher widget_of cam st
           = (None, print ''ERROR: can't watch until added to robot, and robot is in world'' st)"
  using assms by (auto simp: watch_def)

lemma take_picture_unattached:
  assumes "robot cam = None \<or> (\<exists>r. robot cam = Some r \<and> world (robot_of st r) = None)"
  shows "take_picture True cast_ray rotate_around paste ptype cam st = Inl AttributeError"
  using assms by (auto simp: take_picture_def lazy_update_def the_world_def the_robot_def)

text \<open>
  Claim C9. The claim is that a query against a camera that is not attached to a robot
  in a world reports the condition and returns \<open>None\<close> instead of raising. \<open>watch\<close>
  does so; \<open>take_picture\<close> has no such test and, with PIL available, raises
  AttributeError on \<open>self.robot.world\<close> in \<open>_update\<close>.
\<close>

theorem take_picture_unattached_raises:
  "robot fresh_camera = None
   \<and> watch demo_watcher demo_widget fresh_camera demo_state
       = (None, print ''ERROR: can't watch until added to robot, and robot is in world'' demo_state)
   \<and> take_picture True probe_ray no_rotate no_paste ''color'' fresh_camera demo_state
       = Inl AttributeError"
  by (simp add: fresh_camera_def camera_defs watch_def take_picture_def lazy_update_def
      the_world_def the_robot_def)

end
